theory Spec2Isabelle
  imports Complex_Main "HOL-Library.Word"
begin

section \<open>Machine types\<close>

text \<open>
  \<open>uint64_t\<close> and \<open>int64_t\<close> are 64-bit words (\<open>+\<close>, \<open>-\<close>, \<open>*\<close> wrap); an
  \<open>int64_t\<close> is read with \<open>sint\<close>, a \<open>uint64_t\<close> with \<open>unat\<close>/\<open>uint\<close>. The conversions
  between the two keep the bits. \<open>int\<close> is a 32-bit word read with \<open>sint\<close>.
\<close>

type_synonym uint64_t = "64 word"
type_synonym int64_t = "64 word"
type_synonym int32_t = "32 word"

text \<open>\<open>std::max\<close> and \<open>std::min\<close> on \<open>int64_t\<close> (on \<open>uint64_t\<close> they are \<open>max\<close>, \<open>min\<close>).\<close>

definition smax :: "int64_t \<Rightarrow> int64_t \<Rightarrow> int64_t" where
  "smax a b = (if sint a < sint b then b else a)"

definition smin :: "int64_t \<Rightarrow> int64_t \<Rightarrow> int64_t" where
  "smin a b = (if sint b < sint a then b else a)"

subsection \<open>Doubles\<close>

text \<open>
  A finite \<open>double\<close> is the real number it denotes. Every arithmetic operation of the
  source rounds its exact result; the rounding is the parameter \<open>rnd\<close> of the functions
  below, so that what is proved holds for every rounding. The inputs evaluated in this
  file are chosen so that the exact results of the operations whose value is used are
  doubles; \<open>rnd\<close> is the identity there. The one computation of the source that can
  yield a NaN (\<open>0.0 / 0.0\<close> in \<open>Backend::recalculate\<close>) is a branch of its own.
\<close>

type_synonym double = real

definition double_of_u64 :: "(real \<Rightarrow> real) \<Rightarrow> uint64_t \<Rightarrow> double" where
  "double_of_u64 rnd w = rnd (real (unat w))"

definition double_of_s64 :: "(real \<Rightarrow> real) \<Rightarrow> int64_t \<Rightarrow> double" where
  "double_of_s64 rnd w = rnd (real_of_int (sint w))"

text \<open>\<open>double(i)\<close> for an \<open>int\<close> is exact.\<close>

definition double_of_int :: "int32_t \<Rightarrow> double" where
  "double_of_int w = real_of_int (sint w)"

text \<open>Truncation towards zero, the integer part taken by a conversion to an integer type.\<close>

definition trunc :: "double \<Rightarrow> int" where
  "trunc x = (if 0 \<le> x then \<lfloor>x\<rfloor> else \<lceil>x\<rceil>)"

text \<open>
  \<open>int(x)\<close> and \<open>int64_t(x)\<close> for a double \<open>x\<close>. Where the integer part does not fit
  the target type the conversion is undefined in C++; the model takes what the x86-64
  conversion instructions deliver there, the most negative value of the type.
\<close>

definition int_of_double :: "double \<Rightarrow> int32_t" where
  "int_of_double x =
     (if - (2 ^ 31) \<le> trunc x \<and> trunc x < 2 ^ 31 then word_of_int (trunc x)
      else word_of_int (- (2 ^ 31)))"

definition int64_of_double :: "double \<Rightarrow> int64_t" where
  "int64_of_double x =
     (if - (2 ^ 63) \<le> trunc x \<and> trunc x < 2 ^ 63 then word_of_int (trunc x)
      else word_of_int (- (2 ^ 63)))"

section \<open>Statuses\<close>

text \<open>
  The status enumerations of the entities. The enumerators of \<open>Backend::Status\<close>,
  \<open>Group::Status\<close>, \<open>Couple::Status\<close> and \<open>FS::Status\<close> share names in the source
  (each is scoped by its class); here each carries the prefix of its class. The
  declarations of the backend and group statuses are not among the sources:
  \<open>backend_status\<close> has the enumerators that Backend.cpp, FS.cpp and Group.cpp name
  (\<open>B_INIT\<close> is the value of a value-initialised status), \<open>group_status\<close> those that
  Group.cpp and Couple.cpp name. \<open>couple_status\<close> is the enumeration of Couple.h.
\<close>

datatype backend_status = B_INIT | B_OK | B_RO | B_BAD | B_STALLED | B_BROKEN

datatype group_status = G_INIT | G_COUPLED | G_BAD | G_BROKEN | G_RO | G_MIGRATING

datatype couple_status =
  C_INIT | C_OK | C_FULL | C_BAD | C_BROKEN | C_RO | C_FROZEN | C_MIGRATING
  | C_SERVICE_ACTIVE | C_SERVICE_STALLED


section \<open>Backend (collector/Backend.cpp)\<close>

text \<open>The fields of \<open>BackendStat\<close> that the modelled functions read.\<close>

record BackendStat =
  backend_id :: uint64_t
  ts_sec :: uint64_t
  ts_usec :: uint64_t
  read_ios :: uint64_t
  write_ios :: uint64_t
  dstat_error :: uint64_t
  vfs_blocks :: uint64_t
  vfs_bavail :: uint64_t
  vfs_bsize :: uint64_t
  base_size :: uint64_t
  records_total :: uint64_t
  records_removed :: uint64_t
  blob_size_limit :: uint64_t
  last_start_ts_sec :: uint64_t
  last_start_ts_usec :: uint64_t
  ell_cache_write_size :: uint64_t
  ell_disk_write_size :: uint64_t
  ell_cache_read_size :: uint64_t
  ell_disk_read_size :: uint64_t
  stat_commit_rofs_errors :: uint64_t
  data_path :: string
  file_path :: string

text \<open>The constructor \<open>BackendStat::BackendStat()\<close>: every counter 0, both paths empty.\<close>

definition BackendStat_new :: BackendStat where
  "BackendStat_new =
     \<lparr> backend_id = 0, ts_sec = 0, ts_usec = 0, read_ios = 0, write_ios = 0,
       dstat_error = 0, vfs_blocks = 0, vfs_bavail = 0, vfs_bsize = 0, base_size = 0,
       records_total = 0, records_removed = 0, blob_size_limit = 0,
       last_start_ts_sec = 0, last_start_ts_usec = 0,
       ell_cache_write_size = 0, ell_disk_write_size = 0,
       ell_cache_read_size = 0, ell_disk_read_size = 0,
       stat_commit_rofs_errors = 0, data_path = [], file_path = [] \<rparr>"

text \<open>
  Modelled from the spec: \<open>BackendStat::get_timestamp\<close> is declared in Backend.h, which
  is not among the sources. The spec takes \<open>dt = (new.ts - old.ts) / 1e6\<close> seconds with
  \<open>ts\<close> the snapshot time (\<open>ts_sec\<close>, \<open>ts_usec\<close>) in microseconds.
\<close>

definition get_timestamp :: "BackendStat \<Rightarrow> uint64_t" where
  "get_timestamp st = ts_sec st * 1000000 + ts_usec st"

record CommandStat =
  ell_disk_read_rate :: double
  ell_disk_write_rate :: double
  ell_net_read_rate :: double
  ell_net_write_rate :: double

text \<open>\<open>CommandStat::clear\<close>, which is all the constructor does.\<close>

definition CommandStat_clear :: CommandStat where
  "CommandStat_clear =
     \<lparr> ell_disk_read_rate = 0, ell_disk_write_rate = 0,
       ell_net_read_rate = 0, ell_net_write_rate = 0 \<rparr>"

text \<open>
  The derived block \<open>m_calculated\<close>. Its declaration is in Backend.h; the integer types
  are the ones the calls of \<open>std::min\<close> and \<open>std::max\<close> in \<open>Backend::recalculate\<close> force
  (both arguments of one type): the \<open>vfs_*\<close> fields are \<open>uint64_t\<close>, the space fields
  \<open>int64_t\<close>, the request rates \<open>int\<close>.
\<close>

record Calculated =
  vfs_total_space :: uint64_t
  vfs_free_space :: uint64_t
  vfs_used_space :: uint64_t
  records :: uint64_t
  fragmentation :: double
  total_space :: int64_t
  used_space :: int64_t
  free_space :: int64_t
  effective_space :: int64_t
  effective_free_space :: int64_t
  read_rps :: int32_t
  write_rps :: int32_t
  max_read_rps :: int32_t
  max_write_rps :: int32_t
  command_stat :: CommandStat
  stat_commit_rofs_errors_diff :: uint64_t
  base_path :: string
  stalled :: bool
  status :: backend_status

text \<open>The value-initialised block of the constructor \<open>Backend::Backend\<close> (\<open>m_calculated()\<close>).\<close>

definition Calculated_new :: Calculated where
  "Calculated_new =
     \<lparr> vfs_total_space = 0, vfs_free_space = 0, vfs_used_space = 0, records = 0,
       fragmentation = 0, total_space = 0, used_space = 0, free_space = 0,
       effective_space = 0, effective_free_space = 0,
       read_rps = 0, write_rps = 0, max_read_rps = 0, max_write_rps = 0,
       command_stat = CommandStat_clear, stat_commit_rofs_errors_diff = 0,
       base_path = [], stalled = False, status = B_INIT \<rparr>"

record Backend =
  m_stat :: BackendStat
  m_calculated :: Calculated

text \<open>What a backend reads of its node: \<open>m_node.get_stat().load_average\<close>.\<close>

record Node =
  load_average :: double

text \<open>The part of the configuration that the modelled functions read.\<close>

record Config =
  reserved_space :: uint64_t
  forbidden_dht_groups :: bool
  forbidden_unmatched_group_total_space :: bool

subsection \<open>\<open>Backend::calculate_base_path\<close>, \<open>Backend::init\<close>\<close>

definition calculate_base_path :: "BackendStat \<Rightarrow> Calculated \<Rightarrow> Calculated" where
  "calculate_base_path stat c =
     (if data_path stat \<noteq> [] then c\<lparr>base_path := data_path stat\<rparr>
      else if file_path stat \<noteq> [] then c\<lparr>base_path := file_path stat\<rparr>
      else c)"

text \<open>\<open>Backend::init\<close>; the key string \<open>m_key\<close> it also sets is not modelled.\<close>

definition Backend_init :: "Backend \<Rightarrow> BackendStat \<Rightarrow> Backend" where
  "Backend_init b stat =
     b\<lparr>m_stat := stat, m_calculated := calculate_base_path stat (m_calculated b)\<rparr>"

subsection \<open>\<open>CommandStat::calculate\<close>\<close>

definition CommandStat_calculate ::
  "(real \<Rightarrow> real) \<Rightarrow> BackendStat \<Rightarrow> BackendStat \<Rightarrow> CommandStat \<Rightarrow> CommandStat" where
  "CommandStat_calculate rnd old_stat new_stat cs =
     (let dt = rnd (rnd (double_of_u64 rnd (get_timestamp new_stat) / 1000000)
                    - rnd (double_of_u64 rnd (get_timestamp old_stat) / 1000000))
      in if dt \<le> 1 then cs
         else
           let disk_read = ell_disk_read_size new_stat - ell_disk_read_size old_stat;
               disk_written = ell_disk_write_size new_stat - ell_disk_write_size old_stat;
               cache_read = ell_cache_read_size new_stat - ell_cache_read_size old_stat;
               cache_written = ell_cache_write_size new_stat - ell_cache_write_size old_stat;
               cs1 = (if 0 \<le> sint disk_read
                      then let c = cs\<lparr>ell_disk_read_rate :=
                                         rnd (double_of_s64 rnd disk_read / dt)\<rparr>
                           in if 0 \<le> sint cache_read
                              then c\<lparr>ell_net_read_rate :=
                                       rnd (double_of_s64 rnd (disk_read + cache_read) / dt)\<rparr>
                              else c
                      else cs)
           in if 0 \<le> sint disk_written
              then let c = cs1\<lparr>ell_disk_write_rate :=
                                  rnd (double_of_s64 rnd disk_written / dt)\<rparr>
                   in if 0 \<le> sint cache_written
                      then c\<lparr>ell_net_write_rate :=
                               rnd (double_of_s64 rnd (disk_written + cache_written) / dt)\<rparr>
                      else c
              else cs1)"

subsection \<open>\<open>Backend::update\<close>\<close>

text \<open>The interval \<open>d_ts\<close> in seconds, as \<open>Backend::update\<close> computes it.\<close>

definition d_ts :: "(real \<Rightarrow> real) \<Rightarrow> BackendStat \<Rightarrow> BackendStat \<Rightarrow> double" where
  "d_ts rnd old_stat new_stat =
     (let ts1 = rnd (double_of_u64 rnd (get_timestamp old_stat) / 1000000);
          ts2 = rnd (double_of_u64 rnd (get_timestamp new_stat) / 1000000)
      in rnd (ts2 - ts1))"

text \<open>The request rates (lines 184 to 193).\<close>

definition update_rps ::
  "(real \<Rightarrow> real) \<Rightarrow> Node \<Rightarrow> BackendStat \<Rightarrow> BackendStat \<Rightarrow> Calculated \<Rightarrow> Calculated" where
  "update_rps rnd node old_stat stat c =
     (let dt = d_ts rnd old_stat stat
      in if 1 < dt \<and> dstat_error stat = 0
         then
           let r = int_of_double (rnd (double_of_u64 rnd (read_ios stat - read_ios old_stat) / dt));
               w = int_of_double (rnd (double_of_u64 rnd (write_ios stat - write_ios old_stat) / dt));
               la = max (load_average node) (rnd (1 / 100))
           in c\<lparr>read_rps := r, write_rps := w,
                max_read_rps := int_of_double (max (rnd (double_of_int r / la)) 100),
                max_write_rps := int_of_double (max (rnd (double_of_int w / la)) 100)\<rparr>
         else c)"

text \<open>The drift of the read-only errors (lines 197 to 204).\<close>

definition update_rofs_errors :: "BackendStat \<Rightarrow> BackendStat \<Rightarrow> Calculated \<Rightarrow> Calculated" where
  "update_rofs_errors old_stat stat c =
     (let last_start_old = last_start_ts_sec old_stat * 1000000 + last_start_ts_usec stat;
          last_start_new = last_start_ts_sec stat * 1000000 + last_start_ts_usec stat
      in if last_start_old < last_start_new
            \<or> stat_commit_rofs_errors stat < stat_commit_rofs_errors old_stat
         then c\<lparr>stat_commit_rofs_errors_diff := 0\<rparr>
         else c\<lparr>stat_commit_rofs_errors_diff :=
                  stat_commit_rofs_errors_diff c
                  + (stat_commit_rofs_errors stat - stat_commit_rofs_errors old_stat)\<rparr>)"

definition Backend_update ::
  "(real \<Rightarrow> real) \<Rightarrow> Node \<Rightarrow> Backend \<Rightarrow> BackendStat \<Rightarrow> Backend" where
  "Backend_update rnd node b stat =
     (let c1 = update_rps rnd node (m_stat b) stat (m_calculated b);
          c2 = c1\<lparr>command_stat := CommandStat_calculate rnd (m_stat b) stat (command_stat c1)\<rparr>;
          c3 = update_rofs_errors (m_stat b) stat c2;
          c4 = calculate_base_path stat c3
      in b\<lparr>m_stat := stat, m_calculated := c4\<rparr>)"

subsection \<open>\<open>Backend::recalculate\<close>\<close>

text \<open>
  \<open>free_space_req_share\<close> (lines 236 and 237): the reserved space scaled by the share of
  the filesystem the backend may use, rounded up. When the divisor \<open>double(vfs_total_space)\<close>
  is \<open>0.0\<close> the quotient is a NaN or an infinity, and so is what \<open>std::ceil\<close> returns;
  its conversion to \<open>int64_t\<close> is the out-of-range case of \<open>int64_of_double\<close>.
  \<open>reserved_space\<close> is declared in Config.h, which is not among the sources; it is
  taken as a \<open>uint64_t\<close>.
\<close>

definition free_space_req_share ::
  "(real \<Rightarrow> real) \<Rightarrow> Config \<Rightarrow> int64_t \<Rightarrow> uint64_t \<Rightarrow> int64_t" where
  "free_space_req_share rnd cfg total_sp vfs_total =
     (if double_of_u64 rnd vfs_total = 0 then word_of_int (- (2 ^ 63))
      else
        let share = rnd (double_of_s64 rnd total_sp / double_of_u64 rnd vfs_total)
        in int64_of_double
             (real_of_int \<lceil>rnd (double_of_u64 rnd (reserved_space cfg) * share)\<rceil>))"

text \<open>
  The subtractions on \<open>int64_t\<close> wrap: a signed overflow, undefined in C++, wraps in the
  compiled code.
\<close>

definition Backend_recalculate :: "(real \<Rightarrow> real) \<Rightarrow> Config \<Rightarrow> Backend \<Rightarrow> Backend" where
  "Backend_recalculate rnd cfg b =
     (let st = m_stat b;
          vt = vfs_blocks st * vfs_bsize st;
          vf = vfs_bavail st * vfs_bsize st;
          vu = vt - vf;
          c1 = (m_calculated b)
                 \<lparr>vfs_total_space := vt, vfs_free_space := vf, vfs_used_space := vu,
                  records := records_total st - records_removed st,
                  fragmentation := rnd (double_of_u64 rnd (records_removed st)
                                        / double_of_u64 rnd (max (records_total st) 1))\<rparr>;
          c2 = (if blob_size_limit st \<noteq> 0
                then let t = min (blob_size_limit st) vt
                     in c1\<lparr>total_space := t, used_space := base_size st,
                           free_space := smin vf (smax 0 (t - base_size st))\<rparr>
                else c1\<lparr>total_space := vt, free_space := vf, used_space := vu\<rparr>);
          req = free_space_req_share rnd cfg (total_space c2) (vfs_total_space c2);
          c3 = c2\<lparr>effective_space := smax 0 (total_space c2 - req)\<rparr>
      in b\<lparr>m_calculated :=
             c3\<lparr>effective_free_space :=
                   smax (free_space c3 - (total_space c3 - effective_space c3)) 0\<rparr>\<rparr>)"

section \<open>FS (cpp-worker/FS.cpp)\<close>




section \<open>Group (cpp-worker/Group.cpp)\<close>

subsection \<open>Unpacked metadata\<close>

text \<open>
  The object tree that \<open>msgpack::unpack\<close> delivers. A \<open>POSITIVE_INTEGER\<close> carries
  \<open>via.u64\<close> (any unsigned value, 0 too), a \<open>RAW\<close> its bytes.
\<close>

datatype msgpack_object =
  NIL
  | BOOLEAN bool
  | POSITIVE_INTEGER uint64_t
  | NEGATIVE_INTEGER int64_t
  | DOUBLE double
  | RAW string
  | ARRAY "msgpack_object list"
  | MAP "(msgpack_object \<times> msgpack_object) list"

text \<open>The number of the type tag, which is what \<open>ostr << kv.val.type\<close> prints.\<close>

fun object_type :: "msgpack_object \<Rightarrow> nat" where
  "object_type NIL = 0"
| "object_type (BOOLEAN _) = 1"
| "object_type (POSITIVE_INTEGER _) = 2"
| "object_type (NEGATIVE_INTEGER _) = 3"
| "object_type (DOUBLE _) = 4"
| "object_type (RAW _) = 5"
| "object_type (ARRAY _) = 6"
| "object_type (MAP _) = 7"

text \<open>What \<open>msgpack::unpack\<close> does with a blob: an object, or one of the two catches.\<close>

datatype unpack_result = Unpacked msgpack_object | Std_exception string | Unknown_exception

subsection \<open>Decimal output\<close>

definition digit_char :: "nat \<Rightarrow> char" where
  "digit_char d = ''0123456789'' ! d"

fun show_nat :: "nat \<Rightarrow> string" where
  "show_nat n = (if n < 10 then [digit_char n] else show_nat (n div 10) @ [digit_char (n mod 10)])"

declare show_nat.simps [simp del]

definition show_int :: "int \<Rightarrow> string" where
  "show_int i = (if i < 0 then CHR ''-'' # show_nat (nat (- i)) else show_nat (nat i))"

text \<open>\<open>int(obj.via.u64)\<close>: the low 32 bits, read as a signed value.\<close>

definition int_of_u64 :: "uint64_t \<Rightarrow> int" where
  "int_of_u64 u = sint (ucast u :: 32 word)"

subsection \<open>\<open>parse_couple\<close>\<close>

fun parse_couple_loop :: "msgpack_object list \<Rightarrow> int list \<Rightarrow> int list option" where
  "parse_couple_loop [] couple = Some couple"
| "parse_couple_loop (POSITIVE_INTEGER u # objs) couple =
     parse_couple_loop objs (couple @ [int_of_u64 u])"
| "parse_couple_loop (_ # objs) couple = None"

text \<open>\<open>None\<close> is the result \<open>false\<close>; otherwise the vector \<open>couple\<close> as the call leaves it.\<close>

definition parse_couple :: "msgpack_object \<Rightarrow> int list \<Rightarrow> int list option" where
  "parse_couple obj couple =
     (case obj of
        ARRAY objs \<Rightarrow> map_option sort (parse_couple_loop objs couple)
      | _ \<Rightarrow> None)"

subsection \<open>The decoding loops of \<open>Group::process_metadata\<close>\<close>

text \<open>The local variables that the loops fill.\<close>

record Metadata =
  md_version :: int
  md_couple :: "int list"
  md_ns :: string
  md_frozen :: bool
  md_service_migrating :: bool
  md_service_job_id :: string

definition Metadata_new :: Metadata where
  "Metadata_new =
     \<lparr> md_version = 0, md_couple = [], md_ns = [], md_frozen = False,
       md_service_migrating = False, md_service_job_id = [] \<rparr>"

text \<open>The diagnostic for a value of the wrong type under the key \<open>name\<close>.\<close>

definition invalid_type :: "string \<Rightarrow> msgpack_object \<Rightarrow> string" where
  "invalid_type name v =
     ''invalid '' @ [CHR 0x27] @ name @ [CHR 0x27] @ '' value type '' @ show_nat (object_type v)"

text \<open>
  The loop over the members of \<open>service\<close> (lines 192 to 219). \<open>Inl\<close> carries what was
  written to \<open>ostr\<close> before the \<open>break\<close>.
\<close>

fun parse_service :: "(msgpack_object \<times> msgpack_object) list \<Rightarrow> Metadata \<Rightarrow> string + Metadata" where
  "parse_service [] md = Inr md"
| "parse_service ((RAW key, v) # kvs) md =
     (if key = ''status''
      then (case v of
              RAW st \<Rightarrow>
                parse_service kvs
                  (if st = ''MIGRATING'' then md\<lparr>md_service_migrating := True\<rparr> else md)
            | _ \<Rightarrow> parse_service kvs md)
      else if key = ''job_id''
      then (case v of
              RAW job \<Rightarrow> parse_service kvs (md\<lparr>md_service_job_id := job\<rparr>)
            | _ \<Rightarrow> Inl (invalid_type ''job_id'' v))
      else parse_service kvs md)"
| "parse_service (_ # kvs) md = parse_service kvs md"

text \<open>The loop over the members of the top-level map (lines 150 to 227).\<close>

fun parse_map :: "(msgpack_object \<times> msgpack_object) list \<Rightarrow> Metadata \<Rightarrow> string + Metadata" where
  "parse_map [] md = Inr md"
| "parse_map ((RAW key, v) # kvs) md =
     (if key = ''version''
      then (case v of
              POSITIVE_INTEGER u \<Rightarrow> parse_map kvs (md\<lparr>md_version := int_of_u64 u\<rparr>)
            | _ \<Rightarrow> Inl (invalid_type ''version'' v))
      else if key = ''couple''
      then (case parse_couple v (md_couple md) of
              Some c \<Rightarrow> parse_map kvs (md\<lparr>md_couple := c\<rparr>)
            | None \<Rightarrow>
                Inl (''couldn'' @ [CHR 0x27] @ ''t parse '' @ [CHR 0x27] @ ''couple''
                     @ [CHR 0x27, CHR 0x0A]))
      else if key = ''namespace''
      then (case v of
              RAW s \<Rightarrow> parse_map kvs (md\<lparr>md_ns := s\<rparr>)
            | _ \<Rightarrow> Inl (invalid_type ''namespace'' v))
      else if key = ''frozen''
      then (case v of
              BOOLEAN f \<Rightarrow> parse_map kvs (md\<lparr>md_frozen := f\<rparr>)
            | _ \<Rightarrow> Inl (invalid_type ''frozen'' v))
      else if key = ''service''
      then (case v of
              MAP skvs \<Rightarrow>
                (case parse_service skvs md of
                   Inl msg \<Rightarrow> Inl msg
                 | Inr md' \<Rightarrow> parse_map kvs md')
            | _ \<Rightarrow> Inl (invalid_type ''service'' v))
      else parse_map kvs md)"
| "parse_map (_ # kvs) md = parse_map kvs md"

text \<open>
  Lines 142 to 240: the decoding of the unpacked object. \<open>Inl\<close> is a non-empty \<open>ostr\<close>.
\<close>

definition decode_metadata :: "msgpack_object \<Rightarrow> string + Metadata" where
  "decode_metadata obj =
     (case obj of
        MAP kvs \<Rightarrow> parse_map kvs Metadata_new
      | ARRAY objs \<Rightarrow>
          (case parse_couple obj [] of
             Some c \<Rightarrow> Inr (Metadata_new\<lparr>md_version := 1, md_ns := ''default'', md_couple := c\<rparr>)
           | None \<Rightarrow>
               Inl (''couldn'' @ [CHR 0x27] @ ''t parse couple (format of version 1)''))
      | _ \<Rightarrow> Inr Metadata_new)"

subsection \<open>\<open>Couple::check\<close>\<close>

text \<open>
  \<open>Couple::check\<close>, on the ids \<open>m_groups[i]->get_id()\<close> of the couple's groups and the
  decoded list \<open>groups\<close>.
\<close>

fun check_loop :: "int list \<Rightarrow> int list \<Rightarrow> bool" where
  "check_loop (i # ids) (g # groups) = (if i \<noteq> g then False else check_loop ids groups)"
| "check_loop _ _ = True"

definition Couple_check :: "int list \<Rightarrow> int list \<Rightarrow> bool" where
  "Couple_check ids groups =
     (if length ids \<noteq> length groups then False else check_loop ids groups)"

subsection \<open>\<open>Group::process_metadata\<close>\<close>

text \<open>
  A group. \<open>g_backends\<close> holds, for each member of \<open>m_backends\<close> in the order of
  iteration, the one field that is read of it, its \<open>status\<close>. \<open>g_couple\<close> is \<open>None\<close> for
  a null \<open>m_couple\<close>, else the ids of the groups of the couple it points to.
\<close>

record Group =
  g_id :: int
  g_backends :: "backend_status list"
  g_couple :: "int list option"
  g_clean :: bool
  g_metadata :: string
  g_status :: group_status
  g_status_text :: string
  g_frozen :: bool
  g_version :: int
  g_namespace :: string
  g_service_migrating :: bool
  g_service_job_id :: string

text \<open>The constructor \<open>Group::Group(int id, Storage & storage)\<close>.\<close>

definition Group_new :: "int \<Rightarrow> Group" where
  "Group_new i =
     \<lparr> g_id = i, g_backends = [], g_couple = None, g_clean = True, g_metadata = [],
       g_status = G_INIT, g_status_text = [], g_frozen = False, g_version = 0,
       g_namespace = [], g_service_migrating = False, g_service_job_id = [] \<rparr>"

text \<open>\<open>Group::save_metadata\<close>.\<close>

definition Group_save_metadata :: "string \<Rightarrow> Group \<Rightarrow> Group" where
  "Group_save_metadata metadata g =
     (if g_metadata g \<noteq> [] \<and> g_metadata g = metadata then g\<lparr>g_clean := True\<rparr>
      else g\<lparr>g_metadata := metadata, g_clean := False\<rparr>)"

text \<open>The loop over the backends (lines 283 to 293): \<open>have_bad\<close>, \<open>have_ro\<close>, \<open>have_other\<close>.\<close>

fun scan_backends :: "backend_status list \<Rightarrow> bool \<times> bool \<times> bool \<Rightarrow> bool \<times> bool \<times> bool" where
  "scan_backends [] flags = flags"
| "scan_backends (b_status # bs) (have_bad, have_ro, have_other) =
     (if b_status = B_BAD then (True, have_ro, have_other)
      else if b_status = B_RO then scan_backends bs (have_bad, True, have_other)
      else if b_status \<noteq> B_OK then scan_backends bs (have_bad, have_ro, True)
      else scan_backends bs (have_bad, have_ro, have_other))"

text \<open>The derivation of the status from the backends (lines 270 to 316).\<close>

definition derive_status :: "Config \<Rightarrow> Group \<Rightarrow> Group" where
  "derive_status cfg g =
     (let backends = g_backends g
      in if backends = []
         then g\<lparr>g_status := G_INIT, g_status_text := ''no node backends''\<rparr>
         else if 1 < length backends \<and> forbidden_dht_groups cfg
         then g\<lparr>g_status := G_BROKEN,
                g_status_text := ''DHT groups are forbidden but the group has ''
                                 @ show_nat (length backends) @ '' backends''\<rparr>
         else
           (case scan_backends backends (False, False, False) of
              (have_bad, have_ro, have_other) \<Rightarrow>
                if have_bad
                then g\<lparr>g_status := G_BROKEN,
                       g_status_text := ''some of backends are in state BROKEN''\<rparr>
                else if have_ro
                then (if g_service_migrating g
                      then g\<lparr>g_status := G_MIGRATING,
                             g_status_text := ''group is migrating, job id is ''
                                              @ [CHR 0x27] @ g_service_job_id g @ [CHR 0x27]\<rparr>
                      else g\<lparr>g_status := G_RO,
                             g_status_text :=
                               ''group is read-only because it has read-only backends''\<rparr>)
                else if have_other
                then g\<lparr>g_status := G_BAD,
                       g_status_text :=
                         ''group is in state BAD because some of backends are not in state OK''\<rparr>
                else g\<lparr>g_status := G_COUPLED, g_status_text := ''group is OK''\<rparr>))"

text \<open>The list of ids as the diagnostic prints it: each id followed by a blank.\<close>

definition show_ids :: "int list \<Rightarrow> string" where
  "show_ids ids = concat (map (\<lambda>i. show_int i @ '' '') ids)"

definition mismatch_text :: "int list \<Rightarrow> int list \<Rightarrow> string" where
  "mismatch_text couple couple_groups =
     ''couple in group metadata [ '' @ show_ids couple
     @ ''] doesn'' @ [CHR 0x27] @ ''t match to existing one [ '' @ show_ids couple_groups
     @ '']''"

text \<open>
  \<open>Group::process_metadata\<close>. \<open>unpacked\<close> is what \<open>msgpack::unpack\<close> does with the
  blob \<open>m_metadata\<close>. The second component of the result is the call
  \<open>m_storage.create_couple(couple, this)\<close> when the function makes it (with the list
  \<open>couple\<close>), else \<open>None\<close>; what the call does to the storage and to \<open>m_couple\<close>
  belongs to \<open>Storage\<close>.
\<close>

definition Group_process_metadata ::
  "unpack_result \<Rightarrow> Config \<Rightarrow> Group \<Rightarrow> Group \<times> int list option" where
  "Group_process_metadata unpacked cfg g =
     (if g_clean g then (g, None)
      else
        let g1 = g\<lparr>g_clean := True, g_status_text := []\<rparr>
        in (case unpacked of
             Std_exception what \<Rightarrow>
               (g1\<lparr>g_status_text := ''msgpack could not parse group metadata: '' @ what,
                   g_status := G_BAD\<rparr>, None)
           | Unknown_exception \<Rightarrow>
               (g1\<lparr>g_status_text :=
                     ''msgpack could not parse group metadta with unknown reason'',
                   g_status := G_BAD\<rparr>, None)
           | Unpacked obj \<Rightarrow>
               (case decode_metadata obj of
                  Inl msg \<Rightarrow> (g1\<lparr>g_status_text := msg, g_status := G_BAD\<rparr>, None)
                | Inr md \<Rightarrow>
                    let g2 = g1\<lparr>g_version := md_version md, g_frozen := md_frozen md,
                                g_namespace := md_ns md,
                                g_service_migrating := md_service_migrating md,
                                g_service_job_id := md_service_job_id md\<rparr>
                    in (case g_couple g of
                          Some couple_groups \<Rightarrow>
                            if \<not> Couple_check couple_groups (md_couple md)
                            then (g2\<lparr>g_status_text :=
                                        mismatch_text (md_couple md) couple_groups,
                                      g_status := G_BAD\<rparr>, None)
                            else (derive_status cfg g2, None)
                        | None \<Rightarrow> (derive_status cfg g2, Some (md_couple md))))))"

section \<open>Couple (Couple.cpp of the collector)\<close>

text \<open>
  A group as \<open>Couple::update_status\<close> sees it. The \<open>Group\<close> class of the collector is
  not among the sources: each field is what the accessor of that name returns
  (\<open>get_id\<close>, \<open>get_status\<close>, \<open>get_frozen\<close>, \<open>get_total_space\<close>, \<open>full\<close>), and
  \<open>cg_metadata\<close> is the metadata blob that \<open>check_metadata_equals\<close> compares.
\<close>

record CGroup =
  cg_id :: int
  cg_status :: group_status
  cg_frozen :: bool
  cg_metadata :: string
  cg_total_space :: uint64_t
  cg_full :: bool

record Couple =
  c_groups :: "CGroup list"
  c_status :: couple_status
  c_status_text :: string

text \<open>The constructor \<open>Couple::Couple(Storage & storage, const std::vector<Group*> & groups)\<close>.\<close>

definition Couple_new :: "CGroup list \<Rightarrow> Couple" where
  "Couple_new groups = \<lparr> c_groups = groups, c_status = C_INIT, c_status_text = [] \<rparr>"

text \<open>
  \<open>Group::check_metadata_equals\<close> is taken to compare the two blobs byte by byte, as
  \<open>Group::metadata_equals\<close> of Group.cpp does.
\<close>

definition check_metadata_equals :: "CGroup \<Rightarrow> CGroup \<Rightarrow> bool" where
  "check_metadata_equals g1 g2 = (cg_metadata g1 = cg_metadata g2)"

text \<open>
  The first loop (lines 106 to 116), over the groups after the first: \<open>None\<close> when a
  group's metadata differs from the first group's, else \<open>statuses\<close> and \<open>have_frozen\<close>.
\<close>

fun scan_groups ::
  "CGroup \<Rightarrow> CGroup list \<Rightarrow> group_status list \<Rightarrow> bool \<Rightarrow> (group_status list \<times> bool) option"
  where
  "scan_groups g [] statuses have_frozen = Some (statuses, have_frozen)"
| "scan_groups g (gi # gs) statuses have_frozen =
     (if \<not> check_metadata_equals g gi then None
      else scan_groups g gs (statuses @ [cg_status gi])
             (if cg_frozen gi then True else have_frozen))"

text \<open>The loop of lines 126 to 131, over the groups after the first.\<close>

fun check_total_space :: "CGroup \<Rightarrow> CGroup list \<Rightarrow> Couple \<Rightarrow> Couple" where
  "check_total_space g0 [] c = c"
| "check_total_space g0 (gi # gs) c =
     check_total_space g0 gs
       (if cg_total_space gi \<noteq> cg_total_space g0
        then c\<lparr>c_status := C_BROKEN,
               c_status_text := ''Couple has unequal total space in groups''\<rparr>
        else c)"

text \<open>The loop of lines 135 to 140.\<close>

fun some_full :: "CGroup list \<Rightarrow> bool" where
  "some_full [] = False"
| "some_full (g # gs) = (if cg_full g then True else some_full gs)"

text \<open>The loop of lines 152 to 167.\<close>

fun scan_statuses :: "group_status list \<Rightarrow> Couple \<Rightarrow> Couple" where
  "scan_statuses [] c = c"
| "scan_statuses (s # statuses) c =
     scan_statuses statuses
       (if s = G_INIT
        then c\<lparr>c_status := C_INIT, c_status_text := ''Some groups are uninitialized''\<rparr>
        else if s = G_BAD
        then c\<lparr>c_status := C_BAD, c_status_text := ''Some groups are in state BAD''\<rparr>
        else if s = G_BROKEN
        then c\<lparr>c_status := C_BROKEN, c_status_text := ''Some groups are in state BROKEN''\<rparr>
        else if s = G_RO \<or> s = G_MIGRATING
        then c\<lparr>c_status := C_BAD, c_status_text := ''Some groups are read-only''\<rparr>
        else c)"

text \<open>\<open>Couple::update_status\<close>. The stopwatch is not modelled.\<close>

definition Couple_update_status :: "Config \<Rightarrow> Couple \<Rightarrow> Couple" where
  "Couple_update_status cfg c =
     (case c_groups c of
        [] \<Rightarrow> c\<lparr>c_status := C_BAD, c_status_text := ''Couple has no groups''\<rparr>
      | g # gs \<Rightarrow>
          (case scan_groups g gs [cg_status g] (cg_frozen g) of
             None \<Rightarrow> c\<lparr>c_status := C_BAD, c_status_text := ''Groups have different metadata''\<rparr>
           | Some (statuses, have_frozen) \<Rightarrow>
               if have_frozen
               then c\<lparr>c_status := C_FROZEN, c_status_text := ''Some groups are frozen''\<rparr>
               else if count_list statuses G_COUPLED = length statuses
               then
                 let c1 = (if forbidden_unmatched_group_total_space cfg
                           then check_total_space g gs c else c)
                 in if some_full (c_groups c)
                    then c1\<lparr>c_status := C_FULL, c_status_text := ''Couple is FULL''\<rparr>
                    else c1\<lparr>c_status := C_OK, c_status_text := ''Couple is OK''\<rparr>
               else
                 (scan_statuses statuses c)
                   \<lparr>c_status := C_BAD,
                    c_status_text := ''Couple is BAD for unknown reason''\<rparr>))"

section \<open>Predicates of the specification\<close>


text \<open>A rounding that keeps the sign of a non-negative number, as rounding to a double does.\<close>

definition nonneg_rounding :: "(real \<Rightarrow> real) \<Rightarrow> bool" where
  "nonneg_rounding rnd \<longleftrightarrow> (\<forall>x. 0 \<le> x \<longrightarrow> 0 \<le> rnd x)"

text \<open>The shapes that the specification asks of the metadata fields.\<close>

fun is_positive_integer :: "msgpack_object \<Rightarrow> bool" where
  "is_positive_integer (POSITIVE_INTEGER _) = True"
| "is_positive_integer _ = False"

fun is_raw :: "msgpack_object \<Rightarrow> bool" where
  "is_raw (RAW _) = True"
| "is_raw _ = False"

fun is_boolean :: "msgpack_object \<Rightarrow> bool" where
  "is_boolean (BOOLEAN _) = True"
| "is_boolean _ = False"

fun is_id_array :: "msgpack_object \<Rightarrow> bool" where
  "is_id_array (ARRAY objs) = list_all is_positive_integer objs"
| "is_id_array _ = False"

text \<open>
  A member of the metadata map whose value has the wrong type for its key: \<open>couple\<close>
  not an array of \<open>POSITIVE_INTEGER\<close> objects, \<open>frozen\<close> not a boolean, \<open>namespace\<close>
  not a string, \<open>service\<close> not a map, or a \<open>service\<close> map with a \<open>job_id\<close> that is not
  a string.
\<close>

fun mistyped_job_id :: "msgpack_object \<times> msgpack_object \<Rightarrow> bool" where
  "mistyped_job_id (k, v) = (k = RAW ''job_id'' \<and> \<not> is_raw v)"

fun mistyped_service :: "msgpack_object \<Rightarrow> bool" where
  "mistyped_service (MAP skvs) = list_ex mistyped_job_id skvs"
| "mistyped_service _ = True"

fun mistyped :: "msgpack_object \<times> msgpack_object \<Rightarrow> bool" where
  "mistyped (k, v) =
     (k = RAW ''couple'' \<and> \<not> is_id_array v
      \<or> k = RAW ''frozen'' \<and> \<not> is_boolean v
      \<or> k = RAW ''namespace'' \<and> \<not> is_raw v
      \<or> k = RAW ''service'' \<and> mistyped_service v)"

section \<open>Properties of \<open>Backend::update\<close>\<close>

lemma base_path_update_rps [simp]:
  "base_path (update_rps rnd node old_stat stat c) = base_path c"
  by (simp add: update_rps_def Let_def)

lemma base_path_update_rofs_errors [simp]:
  "base_path (update_rofs_errors old_stat stat c) = base_path c"
  by (simp add: update_rofs_errors_def Let_def)

lemma base_path_Backend_update:
  "base_path (m_calculated (Backend_update rnd node b stat)) =
     base_path (calculate_base_path stat (m_calculated b))"
  by (simp add: Backend_update_def Let_def calculate_base_path_def)

lemma update_rps_frame:
  "stat_commit_rofs_errors_diff (update_rps rnd node old_stat stat c) = stat_commit_rofs_errors_diff c"
  "command_stat (update_rps rnd node old_stat stat c) = command_stat c"
  by (simp_all add: update_rps_def Let_def)




lemma rates_calculate_base_path:
  "read_rps (calculate_base_path stat c) = read_rps c"
  "write_rps (calculate_base_path stat c) = write_rps c"
  "max_read_rps (calculate_base_path stat c) = max_read_rps c"
  "max_write_rps (calculate_base_path stat c) = max_write_rps c"
  "command_stat (calculate_base_path stat c) = command_stat c"
  "stat_commit_rofs_errors_diff (calculate_base_path stat c) = stat_commit_rofs_errors_diff c"
  by (simp_all add: calculate_base_path_def)



text \<open>
  C3. The specification resets \<open>stat_commit_rofs_errors_diff\<close> to 0 whenever the start
  time of the old snapshot (its own seconds and its own microseconds) is before that of
  the new one. \<open>Backend::update\<close> takes the microseconds of the old start time from the
  new snapshot: for a restart within one second (start times 1449495977.100000 and
  1449495977.900000, 15 errors in both snapshots, a drift of 5 so far) the old start time
  is before the new one and the drift stays 5.
\<close>

theorem C3_rofs_diff_not_reset:
  "last_start_ts_sec (BackendStat_new\<lparr>last_start_ts_sec := 1449495977,
                        last_start_ts_usec := 100000, stat_commit_rofs_errors := 15\<rparr>) * 1000000
     + last_start_ts_usec (BackendStat_new\<lparr>last_start_ts_sec := 1449495977,
                        last_start_ts_usec := 100000, stat_commit_rofs_errors := 15\<rparr>)
   < last_start_ts_sec (BackendStat_new\<lparr>last_start_ts_sec := 1449495977,
                        last_start_ts_usec := 900000, stat_commit_rofs_errors := 15\<rparr>) * 1000000
     + last_start_ts_usec (BackendStat_new\<lparr>last_start_ts_sec := 1449495977,
                        last_start_ts_usec := 900000, stat_commit_rofs_errors := 15\<rparr>)
   \<and> stat_commit_rofs_errors_diff (m_calculated (Backend_update id \<lparr>load_average = 1\<rparr>
        \<lparr>m_stat = BackendStat_new\<lparr>last_start_ts_sec := 1449495977,
                     last_start_ts_usec := 100000, stat_commit_rofs_errors := 15\<rparr>,
          m_calculated = Calculated_new\<lparr>stat_commit_rofs_errors_diff := 5\<rparr>\<rparr>
        (BackendStat_new\<lparr>last_start_ts_sec := 1449495977,
                     last_start_ts_usec := 900000, stat_commit_rofs_errors := 15\<rparr>))) = 5"
  by (simp add: Backend_update_def Let_def update_rps_frame rates_calculate_base_path
      update_rofs_errors_def BackendStat_new_def Calculated_new_def)

text \<open>
  C4. \<open>Backend::update\<close> has no test for a \<open>read_ios\<close> that went down: the difference
  wraps in \<open>uint64_t\<close> and the quotient is stored. With \<open>read_ios\<close> 2048 then 0, two
  seconds apart, the quotient is beyond the range of \<open>int\<close> and \<open>read_rps\<close>, 100 before,
  becomes the most negative \<open>int\<close>; with \<open>read_ios\<close> \<open>2^64 - 1\<close> then 199 the difference
  wraps to 200 and \<open>read_rps\<close>, 7 before, becomes 100. The start times are equal in both.
\<close>

theorem C4_read_rps_overwritten:
  "read_ios (BackendStat_new\<lparr>ts_sec := 1002, read_ios := 0\<rparr>)
     < read_ios (BackendStat_new\<lparr>ts_sec := 1000, read_ios := 2048\<rparr>)
   \<and> sint (read_rps (m_calculated (Backend_update id \<lparr>load_average = 1\<rparr>
        \<lparr>m_stat = BackendStat_new\<lparr>ts_sec := 1000, read_ios := 2048\<rparr>,
          m_calculated = Calculated_new\<lparr>read_rps := 100\<rparr>\<rparr>
        (BackendStat_new\<lparr>ts_sec := 1002, read_ios := 0\<rparr>)))) = - 2147483648
   \<and> read_ios (BackendStat_new\<lparr>ts_sec := 1002, read_ios := 199\<rparr>)
     < read_ios (BackendStat_new\<lparr>ts_sec := 1000, read_ios := 18446744073709551615\<rparr>)
   \<and> sint (read_rps (m_calculated (Backend_update id \<lparr>load_average = 1\<rparr>
        \<lparr>m_stat = BackendStat_new\<lparr>ts_sec := 1000, read_ios := 18446744073709551615\<rparr>,
          m_calculated = Calculated_new\<lparr>read_rps := 7\<rparr>\<rparr>
        (BackendStat_new\<lparr>ts_sec := 1002, read_ios := 199\<rparr>)))) = 100"
  by (simp add: Backend_update_def update_rps_def d_ts_def update_rofs_errors_def
      calculate_base_path_def BackendStat_new_def Calculated_new_def Let_def get_timestamp_def
      double_of_u64_def int_of_double_def trunc_def double_of_int_def)

text \<open>
  C10. A snapshot with both \<open>data_path\<close> and \<open>file_path\<close> empty leaves \<open>base_path\<close> as it
  was, in \<open>Backend::init\<close> and in \<open>Backend::update\<close>; whatever the snapshot, the new
  \<open>base_path\<close> is the snapshot's \<open>data_path\<close> when that is not empty, else its \<open>file_path\<close>
  when that is not empty, else the previous value, so a \<open>base_path\<close> that is set is never
  cleared.
\<close>

theorem C10_base_path_kept:
  "(data_path stat = [] \<and> file_path stat = [] \<longrightarrow>
      base_path (m_calculated (Backend_init b stat)) = base_path (m_calculated b)
      \<and> base_path (m_calculated (Backend_update rnd node b stat)) = base_path (m_calculated b))
   \<and> base_path (m_calculated (Backend_init b stat)) =
       (if data_path stat \<noteq> [] then data_path stat
        else if file_path stat \<noteq> [] then file_path stat
        else base_path (m_calculated b))
   \<and> base_path (m_calculated (Backend_update rnd node b stat)) =
       (if data_path stat \<noteq> [] then data_path stat
        else if file_path stat \<noteq> [] then file_path stat
        else base_path (m_calculated b))
   \<and> (base_path (m_calculated b) \<noteq> [] \<longrightarrow>
        base_path (m_calculated (Backend_init b stat)) \<noteq> []
        \<and> base_path (m_calculated (Backend_update rnd node b stat)) \<noteq> [])"
  by (simp add: base_path_Backend_update Backend_init_def calculate_base_path_def)

theorem C10_base_path_kept_witness:
  "data_path BackendStat_new = [] \<and> file_path BackendStat_new = []
   \<and> base_path (Calculated_new\<lparr>base_path := ''/srv/storage/1''\<rparr>) \<noteq> []
   \<and> base_path (m_calculated (Backend_init
        \<lparr>m_stat = BackendStat_new,
          m_calculated = Calculated_new\<lparr>base_path := ''/srv/storage/1''\<rparr>\<rparr>
        BackendStat_new)) = ''/srv/storage/1''
   \<and> base_path (m_calculated (Backend_update id \<lparr>load_average = 1\<rparr>
        \<lparr>m_stat = BackendStat_new,
          m_calculated = Calculated_new\<lparr>base_path := ''/srv/storage/1''\<rparr>\<rparr>
        BackendStat_new)) = ''/srv/storage/1''"
  using C10_base_path_kept [of BackendStat_new
      "\<lparr>m_stat = BackendStat_new,
        m_calculated = Calculated_new\<lparr>base_path := ''/srv/storage/1''\<rparr>\<rparr>"
      id "\<lparr>load_average = 1\<rparr>"]
  by (simp add: BackendStat_new_def Calculated_new_def)

section \<open>Properties of \<open>Backend::recalculate\<close>\<close>

subsection \<open>Signed reading of 64-bit words\<close>

lemma pow64: "(2::int) ^ 64 = 2 * 2 ^ 63" "(0::int) < 2 ^ 63"
  by simp_all

lemma mod_2_64_plus:
  fixes x :: int
  assumes "0 \<le> x" "x < 2 ^ 64"
  shows "(x + 2 ^ 64) mod 2 ^ 64 = x"
proof -
  have "(x + 2 ^ 64) mod 2 ^ 64 = x mod 2 ^ 64"
    by (simp only: mod_add_self2)
  also have "\<dots> = x"
    using assms by (rule mod_pos_pos_trivial)
  finally show ?thesis .
qed

lemma sint_64:
  fixes w :: "64 word"
  shows "sint w = (if uint w < 2 ^ 63 then uint w else uint w - 2 ^ 64)"
proof -
  have b: "0 \<le> uint w" "uint w < 2 ^ 64"
    using uint_lt2p [of w] by simp_all
  have s: "sint w = (uint w + 2 ^ 63) mod 2 ^ 64 - 2 ^ 63"
    by (simp add: sint_uint signed_take_bit_eq_take_bit_shift take_bit_eq_mod)
  show ?thesis
  proof (cases "uint w < 2 ^ 63")
    case True
    have "(uint w + 2 ^ 63) mod 2 ^ 64 = uint w + 2 ^ 63"
      by (rule mod_pos_pos_trivial) (use b True pow64 in linarith)+
    then show ?thesis using True s by simp
  next
    case False
    have "((uint w - 2 ^ 63) + 2 ^ 64) mod 2 ^ 64 = uint w - 2 ^ 63"
      by (rule mod_2_64_plus) (use b False pow64 in linarith)+
    moreover have "(uint w - 2 ^ 63) + 2 ^ 64 = uint w + 2 ^ 63"
      by simp
    ultimately have "(uint w + 2 ^ 63) mod 2 ^ 64 = uint w - 2 ^ 63"
      by (simp add: add.commute)
    then show ?thesis using False s by simp
  qed
qed

lemma uint_sub_64:
  fixes t r :: "64 word"
  shows "uint (t - r) = (if uint r \<le> uint t then uint t - uint r else uint t - uint r + 2 ^ 64)"
proof -
  have b: "0 \<le> uint t" "uint t < 2 ^ 64" "0 \<le> uint r" "uint r < 2 ^ 64"
    using uint_lt2p [of t] uint_lt2p [of r] by simp_all
  have e: "uint (t - r) = (uint t - uint r) mod 2 ^ 64"
    by (simp add: uint_word_ariths)
  show ?thesis
  proof (cases "uint r \<le> uint t")
    case True
    have "(uint t - uint r) mod 2 ^ 64 = uint t - uint r"
      by (rule mod_pos_pos_trivial) (use b True pow64 in linarith)+
    then show ?thesis using True e by simp
  next
    case False
    have "((uint t - uint r + 2 ^ 64) + 2 ^ 64) mod 2 ^ 64 = uint t - uint r + 2 ^ 64"
      by (rule mod_2_64_plus) (use b False pow64 in linarith)+
    then have "(uint t - uint r) mod 2 ^ 64 = uint t - uint r + 2 ^ 64"
      by (simp only: mod_add_self2)
    then show ?thesis using False e by simp
  qed
qed

lemma sint_le_uint: "sint (w :: 64 word) \<le> uint w"
  by (simp add: sint_64)

lemma sint_nonneg_iff: "0 \<le> sint (w :: 64 word) \<longleftrightarrow> uint w < 2 ^ 63"
proof -
  have b: "0 \<le> uint w" "uint w < 2 ^ 64"
    using uint_lt2p [of w] by simp_all
  show ?thesis
    unfolding sint_64 using b by (cases "uint w < 2 ^ 63") simp_all
qed

lemma sint_sub_nonneg:
  fixes t r :: "64 word"
  assumes "0 \<le> sint t" "0 \<le> sint r"
  shows "sint (t - r) = sint t - sint r"
proof -
  have b: "0 \<le> uint t" "0 \<le> uint r"
    by simp_all
  have t: "uint t < 2 ^ 63" and r: "uint r < 2 ^ 63"
    using assms by (simp_all add: sint_nonneg_iff)
  have st: "sint t = uint t" and sr: "sint r = uint r"
    using t r by (simp_all add: sint_64)
  show ?thesis
  proof (cases "uint r \<le> uint t")
    case True
    then have u: "uint (t - r) = uint t - uint r"
      by (simp add: uint_sub_64)
    have "uint t - uint r < 2 ^ 63"
      using b t pow64 by linarith
    then show ?thesis
      unfolding sint_64 [of "t - r"] u st sr by simp
  next
    case False
    then have u: "uint (t - r) = uint t - uint r + 2 ^ 64"
      by (simp add: uint_sub_64)
    have "\<not> uint t - uint r + 2 ^ 64 < (2 ^ 63 :: int)"
      using b r pow64 by linarith
    then show ?thesis
      unfolding sint_64 [of "t - r"] u st sr by simp
  qed
qed

lemma sint_sub_min:
  fixes t m :: "64 word"
  assumes "0 \<le> sint t" and m: "uint m = 2 ^ 63"
  shows "sint (t - m) < 0"
proof -
  have b: "0 \<le> uint t"
    by simp
  have t: "uint t < 2 ^ 63"
    using assms by (simp add: sint_nonneg_iff)
  have "\<not> uint m \<le> uint t"
    using t m pow64 by linarith
  then have u: "uint (t - m) = uint t - uint m + 2 ^ 64"
    by (simp add: uint_sub_64)
  have n: "\<not> uint t - uint m + 2 ^ 64 < (2 ^ 63 :: int)"
    using b m pow64 by linarith
  have "uint t - uint m + 2 ^ 64 - 2 ^ 64 < 0"
    using t m pow64 by linarith
  then show ?thesis
    unfolding sint_64 [of "t - m"] u using n by simp
qed

lemma uint_int64_min: "uint (word_of_int (- (2 ^ 63)) :: 64 word) = 2 ^ 63"
  by (simp add: uint_word_of_int)

lemma trunc_of_int [simp]: "trunc (real_of_int k) = k"
  by (simp add: trunc_def)

lemma int64_of_double_nonneg:
  assumes "0 \<le> k"
  shows "int64_of_double (real_of_int k) = word_of_int (- (2 ^ 63))
     \<or> 0 \<le> sint (int64_of_double (real_of_int k))"
proof (cases "k < 2 ^ 63")
  case True
  have "k mod 2 ^ 64 = k"
    by (rule mod_pos_pos_trivial) (use assms True pow64 in linarith)+
  then have "uint (word_of_int k :: 64 word) = k"
    by (simp add: uint_word_of_int)
  then have "sint (word_of_int k :: 64 word) = k"
    using True by (simp add: sint_64)
  then show ?thesis using assms True by (simp add: int64_of_double_def)
next
  case False
  then show ?thesis by (simp add: int64_of_double_def)
qed

subsection \<open>The derived spaces\<close>

lemma free_space_req_share_cases:
  assumes r: "nonneg_rounding rnd" and t: "0 \<le> sint t"
  shows "uint (free_space_req_share rnd cfg t v) = 2 ^ 63
     \<or> 0 \<le> sint (free_space_req_share rnd cfg t v)"
proof (cases "double_of_u64 rnd v = 0")
  case True
  then show ?thesis by (simp add: free_space_req_share_def uint_int64_min)
next
  case False
  have nn: "\<And>x. 0 \<le> x \<Longrightarrow> 0 \<le> rnd x"
    using r by (simp add: nonneg_rounding_def)
  have u: "0 \<le> double_of_u64 rnd w" for w
    unfolding double_of_u64_def by (rule nn) (rule of_nat_0_le_iff)
  have "0 \<le> real_of_int (sint t)"
    using t of_int_0_le_iff [of "sint t", where 'a = real] by blast
  then have t0: "0 \<le> double_of_s64 rnd t"
    unfolding double_of_s64_def by (rule nn)
  have "0 \<le> double_of_s64 rnd t / double_of_u64 rnd v"
    using t0 u [of v] by (rule divide_nonneg_nonneg)
  then have "0 \<le> rnd (double_of_s64 rnd t / double_of_u64 rnd v)"
    by (rule nn)
  with u [of "reserved_space cfg"]
  have "0 \<le> double_of_u64 rnd (reserved_space cfg)
            * rnd (double_of_s64 rnd t / double_of_u64 rnd v)"
    by (rule mult_nonneg_nonneg)
  then have
    "0 \<le> rnd (double_of_u64 rnd (reserved_space cfg) * rnd (double_of_s64 rnd t / double_of_u64 rnd v))"
    by (rule nn)
  then have "0 \<le> \<lceil>rnd (double_of_u64 rnd (reserved_space cfg)
                 * rnd (double_of_s64 rnd t / double_of_u64 rnd v))\<rceil>"
    by simp
  from int64_of_double_nonneg [OF this] show ?thesis
    using False by (auto simp: free_space_req_share_def Let_def uint_int64_min)
qed

lemma effective_le_total:
  assumes r: "nonneg_rounding rnd" and t: "0 \<le> sint t"
  shows "sint (smax 0 (t - free_space_req_share rnd cfg t v)) \<le> sint t"
proof -
  consider "uint (free_space_req_share rnd cfg t v) = 2 ^ 63"
    | "0 \<le> sint (free_space_req_share rnd cfg t v)"
    using free_space_req_share_cases [OF r t] by blast
  then show ?thesis
  proof cases
    case 1
    from sint_sub_min [OF t this] show ?thesis
      using t by (simp add: smax_def)
  next
    case 2
    from sint_sub_nonneg [OF t this] show ?thesis
      using t 2 by (simp add: smax_def)
  qed
qed

lemma recalculate_fields:
  "vfs_total_space (m_calculated (Backend_recalculate rnd cfg b)) =
     vfs_blocks (m_stat b) * vfs_bsize (m_stat b)"
  "total_space (m_calculated (Backend_recalculate rnd cfg b)) =
     (if blob_size_limit (m_stat b) \<noteq> 0
      then min (blob_size_limit (m_stat b)) (vfs_blocks (m_stat b) * vfs_bsize (m_stat b))
      else vfs_blocks (m_stat b) * vfs_bsize (m_stat b))"
  "effective_space (m_calculated (Backend_recalculate rnd cfg b)) =
     smax 0 (total_space (m_calculated (Backend_recalculate rnd cfg b))
             - free_space_req_share rnd cfg
                 (total_space (m_calculated (Backend_recalculate rnd cfg b)))
                 (vfs_total_space (m_calculated (Backend_recalculate rnd cfg b))))"
  by (simp_all add: Backend_recalculate_def Let_def)

lemma total_le_vfs_total:
  "sint (total_space (m_calculated (Backend_recalculate rnd cfg b)))
     \<le> uint (vfs_total_space (m_calculated (Backend_recalculate rnd cfg b)))"
proof -
  have m: "sint (min x y) \<le> uint y" for x y :: "64 word"
  proof -
    have "uint (min x y) \<le> uint y"
      by (simp add: min_def word_le_def)
    with sint_le_uint [of "min x y"] show ?thesis
      by (rule order_trans)
  qed
  show ?thesis
    by (simp add: recalculate_fields(1,2) m sint_le_uint)
qed

lemma recalculate_idem:
  "Backend_recalculate rnd cfg (Backend_recalculate rnd cfg b) = Backend_recalculate rnd cfg b"
  by (simp add: Backend_recalculate_def Let_def)

text \<open>
  C9, amended. After \<open>Backend::recalculate\<close>, \<open>total_space\<close> (an \<open>int64_t\<close>) is at most
  \<open>vfs_total_space\<close> (a \<open>uint64_t\<close>); \<open>effective_space\<close> is at most \<open>total_space\<close>
  whenever \<open>total_space\<close> is not negative, for every rounding of the doubles that keeps
  non-negative values non-negative; and calling \<open>recalculate\<close> a second time on the same
  stored stat changes nothing.
\<close>

theorem C9_recalculate_bounds:
  "sint (total_space (m_calculated (Backend_recalculate rnd cfg b)))
     \<le> uint (vfs_total_space (m_calculated (Backend_recalculate rnd cfg b)))
   \<and> (nonneg_rounding rnd
        \<and> 0 \<le> sint (total_space (m_calculated (Backend_recalculate rnd cfg b)))
      \<longrightarrow> sint (effective_space (m_calculated (Backend_recalculate rnd cfg b)))
            \<le> sint (total_space (m_calculated (Backend_recalculate rnd cfg b))))
   \<and> Backend_recalculate rnd cfg (Backend_recalculate rnd cfg b) = Backend_recalculate rnd cfg b"
  using total_le_vfs_total effective_le_total recalculate_idem
  by (simp add: recalculate_fields(3))

theorem C9_recalculate_bounds_witness:
  "nonneg_rounding id
   \<and> sint (total_space (m_calculated (Backend_recalculate id
        \<lparr>reserved_space = 1000, forbidden_dht_groups = False,
          forbidden_unmatched_group_total_space = False\<rparr>
        \<lparr>m_stat = BackendStat_new\<lparr>vfs_blocks := 1000, vfs_bavail := 500, vfs_bsize := 4096,
                                  base_size := 1000000, blob_size_limit := 2048000\<rparr>,
          m_calculated = Calculated_new\<rparr>))) = 2048000
   \<and> sint (effective_space (m_calculated (Backend_recalculate id
        \<lparr>reserved_space = 1000, forbidden_dht_groups = False,
          forbidden_unmatched_group_total_space = False\<rparr>
        \<lparr>m_stat = BackendStat_new\<lparr>vfs_blocks := 1000, vfs_bavail := 500, vfs_bsize := 4096,
                                  base_size := 1000000, blob_size_limit := 2048000\<rparr>,
          m_calculated = Calculated_new\<rparr>))) = 2047500
   \<and> uint (vfs_total_space (m_calculated (Backend_recalculate id
        \<lparr>reserved_space = 1000, forbidden_dht_groups = False,
          forbidden_unmatched_group_total_space = False\<rparr>
        \<lparr>m_stat = BackendStat_new\<lparr>vfs_blocks := 1000, vfs_bavail := 500, vfs_bsize := 4096,
                                  base_size := 1000000, blob_size_limit := 2048000\<rparr>,
          m_calculated = Calculated_new\<rparr>))) = 4096000"
  using C9_recalculate_bounds [of id
        "\<lparr>reserved_space = 1000, forbidden_dht_groups = False,
          forbidden_unmatched_group_total_space = False\<rparr>"
        "\<lparr>m_stat = BackendStat_new\<lparr>vfs_blocks := 1000, vfs_bavail := 500, vfs_bsize := 4096,
                                  base_size := 1000000, blob_size_limit := 2048000\<rparr>,
          m_calculated = Calculated_new\<rparr>"]
  by (simp add: nonneg_rounding_def recalculate_fields free_space_req_share_def
      double_of_u64_def double_of_s64_def int64_of_double_def trunc_def smax_def
      BackendStat_new_def Let_def)

text \<open>
  Without that condition the bound fails, where \<open>vfs_blocks * vfs_bsize\<close> reaches \<open>2^63\<close>: with
  \<open>2^51\<close> blocks of 4096 bytes and no \<open>blob_size_limit\<close>, \<open>total_space\<close> is
  \<open>- 2^63\<close> as an \<open>int64_t\<close> and \<open>effective_space\<close> is 0.
\<close>

theorem C9_effective_above_total_counterexample:
  "\<not> sint (effective_space (m_calculated (Backend_recalculate id
        \<lparr>reserved_space = 0, forbidden_dht_groups = False,
          forbidden_unmatched_group_total_space = False\<rparr>
        \<lparr>m_stat = BackendStat_new\<lparr>vfs_blocks := 2251799813685248, vfs_bsize := 4096\<rparr>,
          m_calculated = Calculated_new\<rparr>)))
     \<le> sint (total_space (m_calculated (Backend_recalculate id
        \<lparr>reserved_space = 0, forbidden_dht_groups = False,
          forbidden_unmatched_group_total_space = False\<rparr>
        \<lparr>m_stat = BackendStat_new\<lparr>vfs_blocks := 2251799813685248, vfs_bsize := 4096\<rparr>,
          m_calculated = Calculated_new\<rparr>)))"
  by (simp add: recalculate_fields free_space_req_share_def
      double_of_u64_def double_of_s64_def int64_of_double_def trunc_def smax_def
      BackendStat_new_def Let_def)

section \<open>Properties of \<open>FS::update_status\<close>\<close>





section \<open>Properties of \<open>Group::process_metadata\<close>\<close>

lemma check_loop_eq: "length ids = length groups \<Longrightarrow> check_loop ids groups \<longleftrightarrow> ids = groups"
  by (induction ids groups rule: check_loop.induct) auto

lemma Couple_check_eq: "Couple_check ids groups \<longleftrightarrow> ids = groups"
  by (auto simp: Couple_check_def check_loop_eq)

lemma show_nat_digit: "n < 10 \<Longrightarrow> show_nat n = [digit_char n]"
  by (simp add: show_nat.simps)

text \<open>
  C7. For a group whose metadata is to be processed (not clean), unpacks and decodes to
  the fields \<open>md\<close>, and which is bound to a couple whose group ids \<open>couple_groups\<close> differ
  from the decoded list, \<open>Group::process_metadata\<close> sets the status to \<open>BAD\<close> and the
  status text to the message that prints both lists; the status derivation from the
  backends is skipped (the text is none of those it writes, for any group \<open>g'\<close>), and
  \<open>create_couple\<close> is not called.
\<close>

theorem C7_couple_mismatch:
  assumes "\<not> g_clean g" and "unpacked = Unpacked obj" and "decode_metadata obj = Inr md"
    and "g_couple g = Some couple_groups" and "md_couple md \<noteq> couple_groups"
  shows "g_status (fst (Group_process_metadata unpacked cfg g)) = G_BAD
    \<and> g_status_text (fst (Group_process_metadata unpacked cfg g)) =
        ''couple in group metadata [ '' @ show_ids (md_couple md)
        @ ''] doesn'' @ [CHR 0x27] @ ''t match to existing one [ '' @ show_ids couple_groups @ '']''
    \<and> g_status_text (fst (Group_process_metadata unpacked cfg g)) \<noteq>
        g_status_text (derive_status cfg g')
    \<and> snd (Group_process_metadata unpacked cfg g) = None"
proof -
  let ?text = "mismatch_text (md_couple md) couple_groups"
  have check: "\<not> Couple_check couple_groups (md_couple md)"
    using assms(5) by (auto simp: Couple_check_eq)
  have fst: "g_status (fst (Group_process_metadata unpacked cfg g)) = G_BAD"
      "g_status_text (fst (Group_process_metadata unpacked cfg g)) = ?text"
    and snd: "snd (Group_process_metadata unpacked cfg g) = None"
    using assms(1-4) check by (simp_all add: Group_process_metadata_def Let_def)
  have "?text \<noteq> g_status_text (derive_status cfg g')"
    by (auto simp: mismatch_text_def derive_status_def Let_def split: prod.splits)
  with fst snd show ?thesis
    by (simp add: mismatch_text_def)
qed


theorem C7_couple_mismatch_witness:
  "g_status (fst (Group_process_metadata
       (Unpacked (MAP [(RAW ''couple'', ARRAY [POSITIVE_INTEGER 1, POSITIVE_INTEGER 3])]))
       \<lparr>reserved_space = 0, forbidden_dht_groups = False,
         forbidden_unmatched_group_total_space = False\<rparr>
       ((Group_new 1)\<lparr>g_clean := False, g_couple := Some [1, 2], g_backends := [B_OK]\<rparr>))) = G_BAD
   \<and> g_status_text (fst (Group_process_metadata
       (Unpacked (MAP [(RAW ''couple'', ARRAY [POSITIVE_INTEGER 1, POSITIVE_INTEGER 3])]))
       \<lparr>reserved_space = 0, forbidden_dht_groups = False,
         forbidden_unmatched_group_total_space = False\<rparr>
       ((Group_new 1)\<lparr>g_clean := False, g_couple := Some [1, 2], g_backends := [B_OK]\<rparr>)))
     = ''couple in group metadata [ 1 3 ] doesn'' @ [CHR 0x27]
       @ ''t match to existing one [ 1 2 ]''"
  using C7_couple_mismatch [where
      g = "(Group_new 1)\<lparr>g_clean := False, g_couple := Some [1, 2], g_backends := [B_OK]\<rparr>"
      and unpacked = "Unpacked (MAP [(RAW ''couple'', ARRAY [POSITIVE_INTEGER 1, POSITIVE_INTEGER 3])])"
      and obj = "MAP [(RAW ''couple'', ARRAY [POSITIVE_INTEGER 1, POSITIVE_INTEGER 3])]"
      and md = "Metadata_new\<lparr>md_couple := [1, 3]\<rparr>"
      and couple_groups = "[1, 2]"
      and cfg = "\<lparr>reserved_space = 0, forbidden_dht_groups = False,
         forbidden_unmatched_group_total_space = False\<rparr>"
      and g' = "Group_new 1"]
  by (simp add: Group_new_def Metadata_new_def decode_metadata_def parse_couple_def int_of_u64_def
      show_ids_def show_int_def show_nat_digit digit_char_def)

lemma parse_couple_loop_None:
  "parse_couple_loop objs couple = None \<longleftrightarrow> \<not> list_all is_positive_integer objs"
  by (induction objs couple rule: parse_couple_loop.induct) simp_all

lemma parse_couple_loop_ids:
  "parse_couple_loop (map POSITIVE_INTEGER us) couple = Some (couple @ map int_of_u64 us)"
  by (induction us arbitrary: couple) simp_all

lemma parse_couple_None:
  "parse_couple obj couple = None \<longleftrightarrow> \<not> is_id_array obj"
  by (cases obj) (simp_all add: parse_couple_def parse_couple_loop_None)

lemma invalid_type_nonempty [simp]: "invalid_type name v \<noteq> []"
  by (simp add: invalid_type_def)

lemma parse_service_Inl:
  "list_ex mistyped_job_id skvs \<Longrightarrow> \<exists>msg. parse_service skvs md = Inl msg"
proof (induction skvs md rule: parse_service.induct)
  case (2 key v kvs md)
  then show ?case
    by (cases v) (auto split: msgpack_object.splits)
qed simp_all

lemma parse_service_nonempty:
  "parse_service skvs md = Inl msg \<Longrightarrow> msg \<noteq> []"
proof (induction skvs md rule: parse_service.induct)
  case (2 key v kvs md)
  then show ?case
    by (cases v) (auto split: if_splits)
qed simp_all

lemma parse_map_mistyped_head:
  assumes "mistyped (RAW key, v)"
  shows "\<exists>msg. parse_map ((RAW key, v) # kvs) md = Inl msg"
proof -
  consider (couple) "key = ''couple''" "\<not> is_id_array v"
    | (frozen) "key = ''frozen''" "\<not> is_boolean v"
    | (namespace) "key = ''namespace''" "\<not> is_raw v"
    | (service) "key = ''service''" "mistyped_service v"
    using assms by auto
  then show ?thesis
  proof cases
    case couple
    then have "parse_couple v (md_couple md) = None"
      by (simp add: parse_couple_None)
    with couple show ?thesis by simp
  next
    case frozen
    then show ?thesis by (cases v) simp_all
  next
    case namespace
    then show ?thesis by (cases v) simp_all
  next
    case service
    show ?thesis
    proof (cases v)
      case (MAP skvs)
      with service have "list_ex mistyped_job_id skvs" by simp
      from parse_service_Inl [OF this, of md] obtain msg where "parse_service skvs md = Inl msg"
        by blast
      with service MAP show ?thesis by simp
    qed (use service in simp_all)
  qed
qed

lemma parse_map_head:
  "(\<exists>msg. parse_map ((RAW key, v) # kvs) md = Inl msg)
   \<or> (\<exists>md'. parse_map ((RAW key, v) # kvs) md = parse_map kvs md')"
proof -
  consider (version) "key = ''version''"
    | (couple) "key \<noteq> ''version''" "key = ''couple''"
    | (namespace) "key \<noteq> ''version''" "key \<noteq> ''couple''" "key = ''namespace''"
    | (frozen) "key \<noteq> ''version''" "key \<noteq> ''couple''" "key \<noteq> ''namespace''" "key = ''frozen''"
    | (service) "key \<noteq> ''version''" "key \<noteq> ''couple''" "key \<noteq> ''namespace''"
        "key \<noteq> ''frozen''" "key = ''service''"
    | (other) "key \<noteq> ''version''" "key \<noteq> ''couple''" "key \<noteq> ''namespace''"
        "key \<noteq> ''frozen''" "key \<noteq> ''service''"
    by blast
  then show ?thesis
  proof cases
    case version
    then show ?thesis by (cases v) auto
  next
    case couple
    then show ?thesis by (cases "parse_couple v (md_couple md)") auto
  next
    case namespace
    then show ?thesis by (cases v) auto
  next
    case frozen
    then show ?thesis by (cases v) auto
  next
    case service
    show ?thesis
    proof (cases v)
      case (MAP skvs)
      with service show ?thesis by (cases "parse_service skvs md") auto
    qed (use service in auto)
  next
    case other
    then show ?thesis by auto
  qed
qed

lemma parse_map_Inl:
  "list_ex mistyped kvs \<Longrightarrow> \<exists>msg. parse_map kvs md = Inl msg"
proof (induction kvs arbitrary: md)
  case Nil
  then show ?case by simp
next
  case (Cons kv kvs)
  obtain k v where kv: "kv = (k, v)" by (cases kv)
  show ?case
  proof (cases k)
    case (RAW key)
    show ?thesis
    proof (cases "mistyped (RAW key, v)")
      case True
      then show ?thesis
        unfolding kv RAW by (rule parse_map_mistyped_head)
    next
      case False
      from Cons.prems have "mistyped (RAW key, v) \<or> list_ex mistyped kvs"
        unfolding kv RAW by (simp del: mistyped.simps)
      with False have tl: "list_ex mistyped kvs" by blast
      from parse_map_head [of key v kvs md] show ?thesis
      proof
        assume "\<exists>msg. parse_map ((RAW key, v) # kvs) md = Inl msg"
        then show ?thesis unfolding kv RAW .
      next
        assume "\<exists>md'. parse_map ((RAW key, v) # kvs) md = parse_map kvs md'"
        then obtain md' where "parse_map ((RAW key, v) # kvs) md = parse_map kvs md'" ..
        with Cons.IH [OF tl, of md'] show ?thesis unfolding kv RAW by simp
      qed
    qed
  qed (use Cons kv in auto)
qed

lemma parse_map_nonempty:
  "parse_map kvs md = Inl msg \<Longrightarrow> msg \<noteq> []"
proof (induction kvs arbitrary: md)
  case Nil
  then show ?case by simp
next
  case (Cons kv kvs)
  obtain k v where kv: "kv = (k, v)" by (cases kv)
  show ?case
  proof (cases k)
    case (RAW key)
    consider (version) "key = ''version''"
      | (couple) "key \<noteq> ''version''" "key = ''couple''"
      | (namespace) "key \<noteq> ''version''" "key \<noteq> ''couple''" "key = ''namespace''"
      | (frozen) "key \<noteq> ''version''" "key \<noteq> ''couple''" "key \<noteq> ''namespace''"
          "key = ''frozen''"
      | (service) "key \<noteq> ''version''" "key \<noteq> ''couple''" "key \<noteq> ''namespace''"
          "key \<noteq> ''frozen''" "key = ''service''"
      | (other) "key \<noteq> ''version''" "key \<noteq> ''couple''" "key \<noteq> ''namespace''"
          "key \<noteq> ''frozen''" "key \<noteq> ''service''"
      by blast
    then show ?thesis
    proof cases
      case version
      with Cons kv RAW show ?thesis by (cases v) auto
    next
      case couple
      with Cons kv RAW show ?thesis by (cases "parse_couple v (md_couple md)") auto
    next
      case namespace
      with Cons kv RAW show ?thesis by (cases v) auto
    next
      case frozen
      with Cons kv RAW show ?thesis by (cases v) auto
    next
      case service
      show ?thesis
      proof (cases v)
        case (MAP skvs)
        with service Cons kv RAW show ?thesis
          by (cases "parse_service skvs md") (auto dest: parse_service_nonempty)
      qed (use service Cons kv RAW in auto)
    next
      case other
      with Cons kv RAW show ?thesis by auto
    qed
  qed (use Cons kv in auto)
qed

text \<open>
  C8, amended. \<open>parse_couple\<close> accepts an array of \<open>POSITIVE_INTEGER\<close> objects in any
  order and sorts the ids itself; it fails exactly on what is not such an array. For a
  group whose metadata is to be processed and unpacks to a map, if some member of the map
  has a value of the wrong type for its key (\<open>couple\<close>, \<open>frozen\<close>, \<open>namespace\<close>,
  \<open>service\<close>, or \<open>job_id\<close> within \<open>service\<close>), the status becomes \<open>BAD\<close> and the
  status text is not empty; so it does when the metadata unpacks to a bare array that is
  not an array of \<open>POSITIVE_INTEGER\<close> objects.
\<close>

theorem C8_metadata_validation:
  "parse_couple (ARRAY (map POSITIVE_INTEGER us)) [] = Some (sort (map int_of_u64 us))
   \<and> (parse_couple obj couple = None \<longleftrightarrow> \<not> is_id_array obj)
   \<and> (\<not> g_clean g \<and> list_ex mistyped kvs \<longrightarrow>
        g_status (fst (Group_process_metadata (Unpacked (MAP kvs)) cfg g)) = G_BAD
        \<and> g_status_text (fst (Group_process_metadata (Unpacked (MAP kvs)) cfg g)) \<noteq> [])
   \<and> (\<not> g_clean g \<and> \<not> is_id_array (ARRAY objs) \<longrightarrow>
        g_status (fst (Group_process_metadata (Unpacked (ARRAY objs)) cfg g)) = G_BAD
        \<and> g_status_text (fst (Group_process_metadata (Unpacked (ARRAY objs)) cfg g)) \<noteq> [])"
proof -
  have map_shape: "g_status (fst (Group_process_metadata (Unpacked (MAP kvs)) cfg g)) = G_BAD
        \<and> g_status_text (fst (Group_process_metadata (Unpacked (MAP kvs)) cfg g)) \<noteq> []"
    if c: "\<not> g_clean g" and m: "list_ex mistyped kvs"
  proof -
    from parse_map_Inl [OF m] obtain msg where msg: "parse_map kvs Metadata_new = Inl msg"
      by blast
    then have "msg \<noteq> []" by (rule parse_map_nonempty)
    with c msg show ?thesis
      by (simp add: Group_process_metadata_def decode_metadata_def Let_def)
  qed
  have array_shape: "g_status (fst (Group_process_metadata (Unpacked (ARRAY objs)) cfg g)) = G_BAD
        \<and> g_status_text (fst (Group_process_metadata (Unpacked (ARRAY objs)) cfg g)) \<noteq> []"
    if c: "\<not> g_clean g" and m: "\<not> is_id_array (ARRAY objs)"
  proof -
    from m have "parse_couple (ARRAY objs) [] = None"
      by (simp only: parse_couple_None not_False_eq_True)
    with c show ?thesis
      by (simp add: Group_process_metadata_def decode_metadata_def Let_def)
  qed
  have sorts: "parse_couple (ARRAY (map POSITIVE_INTEGER us)) [] = Some (sort (map int_of_u64 us))"
    by (simp add: parse_couple_def parse_couple_loop_ids)
  have none: "parse_couple obj couple = None \<longleftrightarrow> \<not> is_id_array obj"
    by (rule parse_couple_None)
  from sorts none map_shape array_shape show ?thesis
    by blast
qed

theorem C8_metadata_validation_witness:
  "\<not> g_clean ((Group_new 1)\<lparr>g_clean := False\<rparr>)
   \<and> list_ex mistyped
       [(RAW ''couple'', ARRAY [POSITIVE_INTEGER 1, POSITIVE_INTEGER 2]),
        (RAW ''frozen'', POSITIVE_INTEGER 1)]
   \<and> \<not> is_id_array (ARRAY [POSITIVE_INTEGER 1, RAW ''2''])
   \<and> g_status (fst (Group_process_metadata
       (Unpacked (MAP [(RAW ''couple'', ARRAY [POSITIVE_INTEGER 1, POSITIVE_INTEGER 2]),
                       (RAW ''frozen'', POSITIVE_INTEGER 1)]))
       \<lparr>reserved_space = 0, forbidden_dht_groups = False,
         forbidden_unmatched_group_total_space = False\<rparr>
       ((Group_new 1)\<lparr>g_clean := False\<rparr>))) = G_BAD
   \<and> g_status_text (fst (Group_process_metadata
       (Unpacked (MAP [(RAW ''couple'', ARRAY [POSITIVE_INTEGER 1, POSITIVE_INTEGER 2]),
                       (RAW ''frozen'', POSITIVE_INTEGER 1)]))
       \<lparr>reserved_space = 0, forbidden_dht_groups = False,
         forbidden_unmatched_group_total_space = False\<rparr>
       ((Group_new 1)\<lparr>g_clean := False\<rparr>))) \<noteq> []
   \<and> g_status (fst (Group_process_metadata
       (Unpacked (ARRAY [POSITIVE_INTEGER 1, RAW ''2'']))
       \<lparr>reserved_space = 0, forbidden_dht_groups = False,
         forbidden_unmatched_group_total_space = False\<rparr>
       ((Group_new 1)\<lparr>g_clean := False\<rparr>))) = G_BAD
   \<and> g_status_text (fst (Group_process_metadata
       (Unpacked (ARRAY [POSITIVE_INTEGER 1, RAW ''2'']))
       \<lparr>reserved_space = 0, forbidden_dht_groups = False,
         forbidden_unmatched_group_total_space = False\<rparr>
       ((Group_new 1)\<lparr>g_clean := False\<rparr>))) \<noteq> []"
  using C8_metadata_validation [where
      g = "(Group_new 1)\<lparr>g_clean := False\<rparr>"
      and kvs = "[(RAW ''couple'', ARRAY [POSITIVE_INTEGER 1, POSITIVE_INTEGER 2]),
                  (RAW ''frozen'', POSITIVE_INTEGER 1)]"
      and objs = "[POSITIVE_INTEGER 1, RAW ''2'']"
      and cfg = "\<lparr>reserved_space = 0, forbidden_dht_groups = False,
         forbidden_unmatched_group_total_space = False\<rparr>"]
  by simp

text \<open>
  An unsorted array is not refused: the metadata \<open>{couple: [2, 1]}\<close> of an
  unbound group without backends is accepted, the status is \<open>INIT\<close> and the couple
  \<open>[1, 2]\<close> is asked of the storage.
\<close>

theorem C8_unsorted_couple_accepted_counterexample:
  "\<not> sorted [int_of_u64 2, int_of_u64 1]
   \<and> g_status (fst (Group_process_metadata
       (Unpacked (MAP [(RAW ''couple'', ARRAY [POSITIVE_INTEGER 2, POSITIVE_INTEGER 1])]))
       \<lparr>reserved_space = 0, forbidden_dht_groups = False,
         forbidden_unmatched_group_total_space = False\<rparr>
       ((Group_new 1)\<lparr>g_clean := False\<rparr>))) = G_INIT
   \<and> snd (Group_process_metadata
       (Unpacked (MAP [(RAW ''couple'', ARRAY [POSITIVE_INTEGER 2, POSITIVE_INTEGER 1])]))
       \<lparr>reserved_space = 0, forbidden_dht_groups = False,
         forbidden_unmatched_group_total_space = False\<rparr>
       ((Group_new 1)\<lparr>g_clean := False\<rparr>)) = Some [1, 2]"
  by (simp add: Group_process_metadata_def Group_new_def decode_metadata_def parse_couple_def
      int_of_u64_def Metadata_new_def derive_status_def Let_def)

section \<open>Properties of \<open>Couple::update_status\<close>\<close>

lemma scan_groups_equal:
  assumes "\<forall>gi \<in> set gs. cg_metadata gi = cg_metadata g"
  shows "scan_groups g gs statuses have_frozen =
     Some (statuses @ map cg_status gs, have_frozen \<or> (\<exists>gi \<in> set gs. cg_frozen gi))"
  using assms
  by (induction gs arbitrary: statuses have_frozen) (auto simp: check_metadata_equals_def)

lemma count_list_all:
  "count_list xs x = length xs \<longleftrightarrow> (\<forall>y \<in> set xs. y = x)"
proof (induction xs)
  case Nil
  then show ?case by simp
next
  case (Cons a xs)
  have "count_list xs x \<le> length xs"
    by (rule count_le_length)
  then show ?case
    using Cons by auto
qed

text \<open>
  What \<open>Couple::update_status\<close> does for a couple whose groups have equal metadata and
  are not frozen: \<open>BAD\<close> whenever some group is not \<open>COUPLED\<close>, whatever the statuses
  are; \<open>FULL\<close> or \<open>OK\<close> when all are \<open>COUPLED\<close>, whatever the configuration and
  the total spaces are.
\<close>

lemma Couple_update_status_BAD:
  assumes groups: "c_groups c = g # gs"
    and metadata: "\<forall>gi \<in> set gs. cg_metadata gi = cg_metadata g"
    and frozen: "\<forall>gi \<in> set (g # gs). \<not> cg_frozen gi"
    and coupled: "\<exists>gi \<in> set (g # gs). cg_status gi \<noteq> G_COUPLED"
  shows "c_status (Couple_update_status cfg c) = C_BAD"
proof -
  have scan: "scan_groups g gs [cg_status g] (cg_frozen g) = Some (map cg_status (g # gs), False)"
    using frozen by (simp add: scan_groups_equal [OF metadata])
  have "count_list (map cg_status (g # gs)) G_COUPLED \<noteq> length (map cg_status (g # gs))"
    using coupled unfolding count_list_all by auto
  with groups scan show ?thesis
    by (simp add: Couple_update_status_def)
qed

lemma Couple_update_status_FULL_or_OK:
  assumes groups: "c_groups c = g # gs"
    and metadata: "\<forall>gi \<in> set gs. cg_metadata gi = cg_metadata g"
    and frozen: "\<forall>gi \<in> set (g # gs). \<not> cg_frozen gi"
    and coupled: "\<forall>gi \<in> set (g # gs). cg_status gi = G_COUPLED"
  shows "c_status (Couple_update_status cfg c) = (if some_full (g # gs) then C_FULL else C_OK)"
proof -
  have scan: "scan_groups g gs [cg_status g] (cg_frozen g) = Some (map cg_status (g # gs), False)"
    using frozen by (simp add: scan_groups_equal [OF metadata])
  have "count_list (map cg_status (g # gs)) G_COUPLED = length (map cg_status (g # gs))"
    using coupled unfolding count_list_all by auto
  with groups scan show ?thesis
    by (simp add: Couple_update_status_def Let_def)
qed

text \<open>
  C1. After the loop over the statuses \<open>Couple::update_status\<close> assigns \<open>BAD\<close> in every
  case, so the worst status of the groups is not what the couple gets: a couple of one
  group in status \<open>BROKEN\<close> (not frozen) ends \<open>BAD\<close> with the text for an unknown
  reason, and so does a couple of one group in status \<open>INIT\<close>.
\<close>

theorem C1_couple_status_always_bad:
  "c_status (Couple_update_status
      \<lparr>reserved_space = 0, forbidden_dht_groups = False,
        forbidden_unmatched_group_total_space = False\<rparr>
      (Couple_new [\<lparr>cg_id = 1, cg_status = G_BROKEN, cg_frozen = False, cg_metadata = ''m'',
                    cg_total_space = 100, cg_full = False\<rparr>])) = C_BAD
   \<and> c_status_text (Couple_update_status
      \<lparr>reserved_space = 0, forbidden_dht_groups = False,
        forbidden_unmatched_group_total_space = False\<rparr>
      (Couple_new [\<lparr>cg_id = 1, cg_status = G_BROKEN, cg_frozen = False, cg_metadata = ''m'',
                    cg_total_space = 100, cg_full = False\<rparr>])) = ''Couple is BAD for unknown reason''
   \<and> c_status (Couple_update_status
      \<lparr>reserved_space = 0, forbidden_dht_groups = False,
        forbidden_unmatched_group_total_space = False\<rparr>
      (Couple_new [\<lparr>cg_id = 1, cg_status = G_INIT, cg_frozen = False, cg_metadata = ''m'',
                    cg_total_space = 100, cg_full = False\<rparr>])) = C_BAD"
  by (simp add: Couple_update_status_def Couple_new_def)

text \<open>
  C2. With \<open>forbidden_unmatched_group_total_space\<close> set, two groups in status \<open>COUPLED\<close>
  with equal metadata and a \<open>total_space\<close> of 100 and 200: the status \<open>BROKEN\<close> that the
  loop assigns is overwritten, and the couple ends \<open>OK\<close>, or \<open>FULL\<close> when a group is
  full.
\<close>

theorem C2_unequal_total_space_not_broken:
  "c_status (Couple_update_status
      \<lparr>reserved_space = 0, forbidden_dht_groups = False,
        forbidden_unmatched_group_total_space = True\<rparr>
      (Couple_new [\<lparr>cg_id = 1, cg_status = G_COUPLED, cg_frozen = False, cg_metadata = ''m'',
                    cg_total_space = 100, cg_full = False\<rparr>,
                   \<lparr>cg_id = 2, cg_status = G_COUPLED, cg_frozen = False, cg_metadata = ''m'',
                    cg_total_space = 200, cg_full = False\<rparr>])) = C_OK
  \<and> c_status (Couple_update_status
      \<lparr>reserved_space = 0, forbidden_dht_groups = False,
        forbidden_unmatched_group_total_space = True\<rparr>
      (Couple_new [\<lparr>cg_id = 1, cg_status = G_COUPLED, cg_frozen = False, cg_metadata = ''m'',
                    cg_total_space = 100, cg_full = False\<rparr>,
                   \<lparr>cg_id = 2, cg_status = G_COUPLED, cg_frozen = False, cg_metadata = ''m'',
                    cg_total_space = 200, cg_full = True\<rparr>])) = C_FULL"
  by (simp add: Couple_update_status_def Couple_new_def check_metadata_equals_def)

end
